theory Spec2Isabelle
  imports Main "HOL-Library.Word"
begin

unbundle bit_operations_syntax

section \<open>Data model of symbolinfo.cpp\<close>

text \<open>
  The file \<^verbatim>\<open>src/dbg/symbolinfo.cpp\<close> is embedded function by function. Pointer-sized
  unsigned integers (\<^verbatim>\<open>duint\<close>) are 64-bit words, as in the x64 build. C strings are
  character lists holding the characters in front of the terminating NUL; a nullable
  pointer is an \<open>option\<close>. Everything the file calls but does not define (the module
  directory, the import walker, the demangler, the label store, the symbol engine, the
  C runtime's rendering of \<^verbatim>\<open>%p\<close>) is a field of the record \<open>debugger\<close> or
  \<open>engine\<close> below, so every theorem holds for whatever these collaborators do.
\<close>

type_synonym duint = "64 word"

datatype fault = NullPointerDereference | InvalidParameter

text \<open>Limits of the Windows SDK (dbghelp.h, minwindef.h) and of the bridge header.\<close>

definition MAX_SYM_NAME :: nat where
  "MAX_SYM_NAME = 2000"

definition MAX_PATH :: nat where
  "MAX_PATH = 260"

definition MAX_MODULE_SIZE :: nat where
  "MAX_MODULE_SIZE = 256"


definition SYMOPT_IGNORE_CVREC :: "32 word" where
  "SYMOPT_IGNORE_CVREC = 0x80"

subsection \<open>C runtime string functions used by the file\<close>

text \<open>\<^verbatim>\<open>std::string::c_str()\<close> read as a C string: the characters before the first NUL.\<close>

definition c_str :: "string \<Rightarrow> string" where
  "c_str s = takeWhile (\<lambda>c. c \<noteq> CHR 0x00) s"

text \<open>\<^verbatim>\<open>strncpy_s(dest, n, src, _TRUNCATE)\<close>: as much of \<open>src\<close> as fits with its terminator.\<close>

definition strncpy_s_TRUNCATE :: "nat \<Rightarrow> string \<Rightarrow> string" where
  "strncpy_s_TRUNCATE n src = take (n - 1) src"

text \<open>
  \<^verbatim>\<open>strcpy_s\<close> and \<^verbatim>\<open>strcat_s\<close> into a buffer of \<open>n\<close> characters: when the result and
  its terminator do not fit, the runtime's invalid-parameter handler ends the process.
\<close>

definition strcpy_s :: "nat \<Rightarrow> string \<Rightarrow> fault + string" where
  "strcpy_s n src = (if length src < n then Inr src else Inl InvalidParameter)"

definition strcat_s :: "nat \<Rightarrow> string \<Rightarrow> string \<Rightarrow> fault + string" where
  "strcat_s n dest src =
     (if length dest + length src < n then Inr (dest @ src) else Inl InvalidParameter)"

text \<open>\<^verbatim>\<open>strstr(hay, needle) != NULL\<close>.\<close>

fun strstr :: "string \<Rightarrow> string \<Rightarrow> bool" where
  "strstr [] needle = (needle = [])"
| "strstr (c # cs) needle = (take (length needle) (c # cs) = needle \<or> strstr cs needle)"

text \<open>\<^verbatim>\<open>strncmp(a, b, n) == 0\<close> for NUL-free \<open>a\<close> and \<open>b\<close>.\<close>

definition strncmp_eq :: "string \<Rightarrow> string \<Rightarrow> nat \<Rightarrow> bool" where
  "strncmp_eq a b n = (take n a = take n b)"

text \<open>\<^verbatim>\<open>tolower\<close> in the C locale, and \<^verbatim>\<open>_strnicmp(a, b, n) == 0\<close>.\<close>

definition tolower :: "char \<Rightarrow> char" where
  "tolower c =
     (let n = (of_char c :: nat) in if 65 \<le> n \<and> n \<le> 90 then char_of (n + 32) else c)"

definition strnicmp_eq :: "string \<Rightarrow> string \<Rightarrow> nat \<Rightarrow> bool" where
  "strnicmp_eq a b n = (map tolower (take n a) = map tolower (take n b))"

subsection \<open>Structures\<close>

text \<open>\<^verbatim>\<open>SYMBOLINFO\<close>: what the visitor receives. Both names are nullable pointers.\<close>

record SYMBOLINFO =
  addr :: duint
  decoratedSymbol :: "string option"
  undecoratedSymbol :: "string option"
  isImported :: bool

text \<open>\<^verbatim>\<open>SymbolInfo\<close>: one entry of a SymbolSource; its address is relative to the module.\<close>

record SymbolInfo =
  addr :: duint
  decoratedName :: string
  undecoratedName :: string

record LineInfo =
  lineNumber :: int
  sourceFile :: string

text \<open>
  A \<^verbatim>\<open>SymbolSourceBase\<close> object. \<open>isEmptySymbolSource\<close> says that the object is the
  global \<^verbatim>\<open>EmptySymbolSource\<close> (the file compares addresses); \<open>symbolList\<close> is what
  \<^verbatim>\<open>enumSymbols\<close> walks, in its order.
\<close>

record SymbolSourceBase =
  isEmptySymbolSource :: bool
  isOpen :: bool
  symbolList :: "SymbolInfo list"
  findSourceLineInfo :: "duint \<Rightarrow> LineInfo option"

record MODINFO =
  base :: duint
  name :: string
  extension :: string
  symbols :: "SymbolSourceBase option"

record SYMBOLMODULEINFO =
  base :: duint
  name :: string

text \<open>
  The visitor \<^verbatim>\<open>CBSYMBOLENUM\<close> with the memory behind its \<^verbatim>\<open>void* user\<close>: it takes
  the symbol and the user data, and gives back what it returns, read as a continue flag,
  and the user data as it left them. The typedef is not in the file, and the file never
  reads what the visitor returns.
\<close>

type_synonym 'u CBSYMBOLENUM = "SYMBOLINFO \<Rightarrow> 'u \<Rightarrow> bool \<times> 'u"

text \<open>
  The collaborators the file reads from. \<open>ModEnum\<close> is the sequence of modules that
  \<^verbatim>\<open>ModEnum\<close> passes to its callback; \<open>apienumimports\<close> the tuples (base, address, name,
  module name) that the import walker passes to its callback; \<open>SafeUnDecorateSymbolName\<close>
  the demangler's output when it succeeds; \<open>sprintf_p\<close> the runtime's rendering of
  \<^verbatim>\<open>%p\<close>.
\<close>

record debugger =
  ModInfoFromAddr :: "duint \<Rightarrow> MODINFO option"
  ModEntryFromAddr :: "duint \<Rightarrow> duint"
  ModNameFromAddr :: "duint \<Rightarrow> string option"
  ModEnum :: "MODINFO list"
  apienumimports :: "duint \<Rightarrow> (duint \<times> duint \<times> string \<times> string) list"
  SafeUnDecorateSymbolName :: "string \<Rightarrow> string option"
  DbgGetLabelAt :: "duint \<Rightarrow> string option"
  GetModuleFileNameExW :: "duint \<Rightarrow> string option"
  szSymbolCachePath :: string
  Utf8ToUtf16 :: "string \<Rightarrow> string"
  sprintf_p :: "duint \<Rightarrow> string"

section \<open>SymEnum\<close>

text \<open>The body of the lambda of \<^verbatim>\<open>SymEnumImports\<close> up to the call of the visitor.\<close>

definition SymEnumImports_symbol :: "debugger \<Rightarrow> duint \<Rightarrow> string \<Rightarrow> SYMBOLINFO" where
  "SymEnumImports_symbol dbg a nm =
     (let decorated = strncpy_s_TRUNCATE MAX_SYM_NAME nm in
      \<lparr> SYMBOLINFO.addr = a,
        decoratedSymbol = Some decorated,
        undecoratedSymbol =
          (case SafeUnDecorateSymbolName dbg nm of
             None \<Rightarrow> None
           | Some undecorated \<Rightarrow> if decorated = undecorated then None else Some undecorated),
        isImported = True \<rparr>)"

definition SymEnumImports :: "debugger \<Rightarrow> duint \<Rightarrow> 'u CBSYMBOLENUM \<Rightarrow> 'u \<Rightarrow> 'u" where
  "SymEnumImports dbg Base EnumCallback user =
     fold (\<lambda>(b, a, nm, moduleName) u. snd (EnumCallback (SymEnumImports_symbol dbg a nm) u))
       (apienumimports dbg Base) user"

text \<open>
  Modelled from the spec: \<^verbatim>\<open>SymbolSourceBase::enumSymbols\<close> is not in the file. It walks
  the symbols in order, hands each to its callback and stops when the callback returns
  false; it returns whether it reached the end.
\<close>

fun enumSymbols :: "SymbolInfo list \<Rightarrow> (SymbolInfo \<Rightarrow> 'u \<Rightarrow> bool \<times> 'u) \<Rightarrow> 'u \<Rightarrow> bool \<times> 'u" where
  "enumSymbols [] cb u = (True, u)"
| "enumSymbols (info # rest) cb u =
     (case cb info u of
        (True, u') \<Rightarrow> enumSymbols rest cb u'
      | (False, u') \<Rightarrow> (False, u'))"

text \<open>
  The lambda that \<^verbatim>\<open>SymEnum\<close> passes to \<^verbatim>\<open>enumSymbols\<close>, in three parts: the name
  buffers after the two \<^verbatim>\<open>strncpy_s\<close>, the test "Skip bad ordinals", and the symbol
  handed to the visitor.
\<close>

definition SymEnum_decorated :: "SymbolInfo \<Rightarrow> string" where
  "SymEnum_decorated info = strncpy_s_TRUNCATE MAX_SYM_NAME (c_str (decoratedName info))"

definition SymEnum_undecorated :: "SymbolInfo \<Rightarrow> string" where
  "SymEnum_undecorated info = strncpy_s_TRUNCATE MAX_SYM_NAME (c_str (undecoratedName info))"

definition SymEnum_skip :: "duint \<Rightarrow> SymbolInfo \<Rightarrow> bool" where
  "SymEnum_skip Base info =
     (strstr (SymEnum_decorated info) ''Ordinal'' \<and> Base + SymbolInfo.addr info = Base)"

definition SymEnum_symbol :: "duint \<Rightarrow> SymbolInfo \<Rightarrow> SYMBOLINFO" where
  "SymEnum_symbol Base info =
     (let decorated =
            (if decoratedName info = undecoratedName info then SymEnum_undecorated info
             else SymEnum_decorated info);
          undecorated =
            (if decoratedName info = undecoratedName info then None
             else Some (SymEnum_undecorated info))
      in \<lparr> SYMBOLINFO.addr = Base + SymbolInfo.addr info,
           decoratedSymbol = Some decorated,
           undecoratedSymbol = undecorated,
           isImported = strncmp_eq decorated ''__imp_'' 6 \<rparr>)"

definition SymEnum_lambda :: "duint \<Rightarrow> 'u CBSYMBOLENUM \<Rightarrow> SymbolInfo \<Rightarrow> 'u \<Rightarrow> bool \<times> 'u" where
  "SymEnum_lambda Base cbSymbolEnum info user =
     (if SymEnum_skip Base info then (True, user)
      else (True, snd (cbSymbolEnum (SymEnum_symbol Base info) user)))"

text \<open>The block under \<^verbatim>\<open>SHARED_ACQUIRE(LockModules)\<close>.\<close>

definition SymEnum_indexed :: "debugger \<Rightarrow> duint \<Rightarrow> 'u CBSYMBOLENUM \<Rightarrow> 'u \<Rightarrow> fault + 'u" where
  "SymEnum_indexed dbg Base EnumCallback UserData =
     (case ModInfoFromAddr dbg Base of
        None \<Rightarrow> Inr UserData
      | Some modInfo \<Rightarrow>
          (case symbols modInfo of
             None \<Rightarrow> Inl NullPointerDereference
           | Some src \<Rightarrow>
               if isOpen src
               then Inr (snd (enumSymbols (symbolList src) (SymEnum_lambda Base EnumCallback) UserData))
               else Inr UserData))"

definition entry_point_symbol :: "duint \<Rightarrow> SYMBOLINFO" where
  "entry_point_symbol a =
     \<lparr> SYMBOLINFO.addr = a,
       decoratedSymbol = Some ''OptionalHeader.AddressOfEntryPoint'',
       undecoratedSymbol = None,
       isImported = False \<rparr>"

definition SymEnum :: "debugger \<Rightarrow> duint \<Rightarrow> 'u CBSYMBOLENUM \<Rightarrow> 'u \<Rightarrow> fault + 'u" where
  "SymEnum dbg Base EnumCallback UserData =
     (case SymEnum_indexed dbg Base EnumCallback UserData of
        Inl e \<Rightarrow> Inl e
      | Inr u1 \<Rightarrow>
          (let symbol = entry_point_symbol (ModEntryFromAddr dbg Base);
               u2 = (if SYMBOLINFO.addr symbol \<noteq> 0 then snd (EnumCallback symbol u1) else u1)
           in Inr (SymEnumImports dbg Base EnumCallback u2)))"

definition SymEnumFromCache :: "debugger \<Rightarrow> duint \<Rightarrow> 'u CBSYMBOLENUM \<Rightarrow> 'u \<Rightarrow> fault + 'u" where
  "SymEnumFromCache dbg Base EnumCallback UserData = SymEnum dbg Base EnumCallback UserData"

text \<open>A visitor that appends every symbol it is given to its user data.\<close>

definition record_symbol :: "bool \<Rightarrow> (SYMBOLINFO list) CBSYMBOLENUM" where
  "record_symbol continue symbol seen = (continue, seen @ [symbol])"

section \<open>SymGetModuleList and SymUpdateModuleList\<close>

text \<open>The callback that \<^verbatim>\<open>SymGetModuleList\<close> passes to \<^verbatim>\<open>ModEnum\<close>.\<close>

definition SymGetModuleList_lambda ::
  "MODINFO \<Rightarrow> SYMBOLMODULEINFO list \<Rightarrow> fault + SYMBOLMODULEINFO list" where
  "SymGetModuleList_lambda modl List =
     (case strcpy_s MAX_MODULE_SIZE (MODINFO.name modl) of
        Inl e \<Rightarrow> Inl e
      | Inr n1 \<Rightarrow>
          (case strcat_s MAX_MODULE_SIZE n1 (extension modl) of
             Inl e \<Rightarrow> Inl e
           | Inr n2 \<Rightarrow>
               Inr (List @ [\<lparr> SYMBOLMODULEINFO.base = MODINFO.base modl,
                              SYMBOLMODULEINFO.name = n2 \<rparr>])))"

text \<open>
  Modelled from the spec: \<^verbatim>\<open>ModEnum\<close> is not in the file. It calls its callback on every
  module of the directory, in order.
\<close>

fun ModEnum_each :: "MODINFO list \<Rightarrow> (MODINFO \<Rightarrow> 's \<Rightarrow> fault + 's) \<Rightarrow> 's \<Rightarrow> fault + 's" where
  "ModEnum_each [] cb s = Inr s"
| "ModEnum_each (modl # rest) cb s =
     (case cb modl s of Inl e \<Rightarrow> Inl e | Inr s' \<Rightarrow> ModEnum_each rest cb s')"

definition SymGetModuleList ::
  "debugger \<Rightarrow> SYMBOLMODULEINFO list \<Rightarrow> fault + (bool \<times> SYMBOLMODULEINFO list)" where
  "SymGetModuleList dbg List =
     (case ModEnum_each (ModEnum dbg) SymGetModuleList_lambda List of
        Inl e \<Rightarrow> Inl e
      | Inr List' \<Rightarrow> Inr (True, List'))"

text \<open>
  \<^verbatim>\<open>SymUpdateModuleList\<close> makes one call \<^verbatim>\<open>GuiSymbolUpdateModuleList(count, data)\<close>; the
  result is the pair of its arguments, \<open>None\<close> standing for \<^verbatim>\<open>nullptr\<close> and
  \<open>Some\<close> for the array copied into the block from \<^verbatim>\<open>BridgeAlloc\<close>. The count is the
  vector's size cast to \<^verbatim>\<open>int\<close>.
\<close>

definition SymUpdateModuleList :: "debugger \<Rightarrow> fault + (int \<times> SYMBOLMODULEINFO list option)" where
  "SymUpdateModuleList dbg =
     (case SymGetModuleList dbg [] of
        Inl e \<Rightarrow> Inl e
      | Inr (ok, modList) \<Rightarrow>
          if \<not> ok then Inr (0, None)
          else Inr (sint (word_of_nat (length modList) :: 32 word), Some modList))"

section \<open>The symbol engine\<close>

datatype SYM_TYPE =
  SymNone | SymCoff | SymCv | SymPdb | SymExport | SymDeferred | SymSym | SymDia | SymVirtual

datatype arg = ArgStr string | ArgPtr duint

text \<open>What the file does to the outside, in the order it does it.\<close>

datatype event =
    Call_SymGetSearchPathW
  | Call_SymSetSearchPathW string
  | Call_SymGetOptions
  | Call_SymSetOptions "32 word"
  | Call_GetModuleFileNameExW duint
  | Call_SymUnloadModule64 duint
  | Call_SymLoadModuleExW string duint
  | Call_SymGetModuleInfoW64 duint
  | Call_SymFromName string
  | Console string "arg list"

text \<open>
  The engine's global configuration (search path and option flags) and the trace of the
  calls and console lines so far.
\<close>

record world =
  searchPath :: string
  options :: "32 word"
  trace :: "event list"

text \<open>
  The engine's answers. Each may depend on the whole \<open>world\<close> at the moment of the
  call, its trace included, so an engine may answer the same call differently at
  different times.
\<close>

record engine =
  SymGetSearchPathW :: "world \<Rightarrow> nat \<Rightarrow> string option"
  SymSetSearchPathW :: "world \<Rightarrow> string \<Rightarrow> bool"
  SymUnloadModule64 :: "world \<Rightarrow> duint \<Rightarrow> bool"
  SymLoadModuleExW :: "world \<Rightarrow> string \<Rightarrow> duint \<Rightarrow> bool"
  SymGetModuleInfoW64 :: "world \<Rightarrow> duint \<Rightarrow> SYM_TYPE option"
  SymFromName :: "world \<Rightarrow> string \<Rightarrow> 64 word option"

definition log_event :: "event \<Rightarrow> world \<Rightarrow> world" where
  "log_event e w = w\<lparr>trace := trace w @ [e]\<rparr>"

definition dputs :: "string \<Rightarrow> world \<Rightarrow> world" where
  "dputs text w = log_event (Console text []) w"

definition dprintf :: "string \<Rightarrow> arg list \<Rightarrow> world \<Rightarrow> world" where
  "dprintf format args w = log_event (Console format args) w"

text \<open>
  Modelled from the spec: the wrappers of \<^verbatim>\<open>dbghelp_safe.h\<close> are not in the file. Reading
  the search path and the options changes nothing; setting the search path stores it when
  the engine accepts it; setting the options always stores them; unloading, loading and
  querying a module and looking a name up leave the global configuration alone. Every call
  is appended to the trace. \<^verbatim>\<open>GetModuleFileNameExW\<close> is the operating system's; its call
  is traced in the same way.
\<close>

definition SafeSymGetSearchPathW :: "engine \<Rightarrow> nat \<Rightarrow> world \<Rightarrow> string option \<times> world" where
  "SafeSymGetSearchPathW eng n w = (SymGetSearchPathW eng w n, log_event Call_SymGetSearchPathW w)"

definition SafeSymSetSearchPathW :: "engine \<Rightarrow> string \<Rightarrow> world \<Rightarrow> bool \<times> world" where
  "SafeSymSetSearchPathW eng path w =
     (if SymSetSearchPathW eng w path
      then (True, (log_event (Call_SymSetSearchPathW path) w)\<lparr>searchPath := path\<rparr>)
      else (False, log_event (Call_SymSetSearchPathW path) w))"

definition SafeSymGetOptions :: "world \<Rightarrow> 32 word \<times> world" where
  "SafeSymGetOptions w = (options w, log_event Call_SymGetOptions w)"

definition SafeSymSetOptions :: "32 word \<Rightarrow> world \<Rightarrow> world" where
  "SafeSymSetOptions opts w = (log_event (Call_SymSetOptions opts) w)\<lparr>options := opts\<rparr>"

definition SafeSymUnloadModule64 :: "engine \<Rightarrow> duint \<Rightarrow> world \<Rightarrow> bool \<times> world" where
  "SafeSymUnloadModule64 eng b w = (SymUnloadModule64 eng w b, log_event (Call_SymUnloadModule64 b) w)"

definition SafeSymLoadModuleExW :: "engine \<Rightarrow> string \<Rightarrow> duint \<Rightarrow> world \<Rightarrow> bool \<times> world" where
  "SafeSymLoadModuleExW eng path b w =
     (SymLoadModuleExW eng w path b, log_event (Call_SymLoadModuleExW path b) w)"

definition SafeSymGetModuleInfoW64 :: "engine \<Rightarrow> duint \<Rightarrow> world \<Rightarrow> SYM_TYPE option \<times> world" where
  "SafeSymGetModuleInfoW64 eng b w =
     (SymGetModuleInfoW64 eng w b, log_event (Call_SymGetModuleInfoW64 b) w)"

definition SafeSymFromName :: "engine \<Rightarrow> string \<Rightarrow> world \<Rightarrow> 64 word option \<times> world" where
  "SafeSymFromName eng nm w = (SymFromName eng w nm, log_event (Call_SymFromName nm) w)"

definition call_GetModuleFileNameExW :: "debugger \<Rightarrow> duint \<Rightarrow> world \<Rightarrow> string option \<times> world" where
  "call_GetModuleFileNameExW dbg b w =
     (GetModuleFileNameExW dbg b, log_event (Call_GetModuleFileNameExW b) w)"

section \<open>SymDownloadAllSymbols\<close>

text \<open>
  The inner loop over \<^verbatim>\<open>search_paths\<close> for one module: the list is what is left of the
  candidates. Every \<^verbatim>\<open>continue\<close> is the recursive call on the rest, \<^verbatim>\<open>break\<close> is the
  return.
\<close>

fun SymDownloadAllSymbols_paths ::
  "debugger \<Rightarrow> engine \<Rightarrow> SYMBOLMODULEINFO \<Rightarrow> string list \<Rightarrow> world \<Rightarrow> world" where
  "SymDownloadAllSymbols_paths dbg eng module [] w = w"
| "SymDownloadAllSymbols_paths dbg eng module (cur_path # rest) w =
     (case SafeSymSetSearchPathW eng cur_path w of
        (False, w1) \<Rightarrow>
          SymDownloadAllSymbols_paths dbg eng module rest
            (dputs ''SymSetSearchPathW (1) failed!'' w1)
      | (True, w1) \<Rightarrow>
          (case call_GetModuleFileNameExW dbg (SYMBOLMODULEINFO.base module)
                  (dprintf ''Downloading symbols for %s...\<newline>'' [ArgStr (SYMBOLMODULEINFO.name module)] w1) of
             (None, w2) \<Rightarrow>
               SymDownloadAllSymbols_paths dbg eng module rest
                 (dprintf ''GetModuleFileNameExW (%p) failed!\<newline>'' [ArgPtr (SYMBOLMODULEINFO.base module)] w2)
           | (Some modulePath, w2) \<Rightarrow>
               (case SafeSymUnloadModule64 eng (SYMBOLMODULEINFO.base module) w2 of
                  (False, w3) \<Rightarrow>
                    SymDownloadAllSymbols_paths dbg eng module rest
                      (dprintf ''SymUnloadModule64 (%p) failed!\<newline>'' [ArgPtr (SYMBOLMODULEINFO.base module)] w3)
                | (True, w3) \<Rightarrow>
                    (case SafeSymLoadModuleExW eng modulePath (SYMBOLMODULEINFO.base module) w3 of
                       (False, w4) \<Rightarrow>
                         SymDownloadAllSymbols_paths dbg eng module rest
                           (dprintf ''SymLoadModuleEx (%p) failed!\<newline>'' [ArgPtr (SYMBOLMODULEINFO.base module)] w4)
                     | (True, w4) \<Rightarrow>
                         (case SafeSymGetModuleInfoW64 eng (SYMBOLMODULEINFO.base module) w4 of
                            (None, w5) \<Rightarrow>
                              SymDownloadAllSymbols_paths dbg eng module rest
                                (dprintf ''SymGetModuleInfo64 (%p) failed!\<newline>'' [ArgPtr (SYMBOLMODULEINFO.base module)] w5)
                          | (Some SymType, w5) \<Rightarrow>
                              if SymType = SymPdb then w5
                              else SymDownloadAllSymbols_paths dbg eng module rest w5)))))"

text \<open>The outer loop over \<^verbatim>\<open>modList\<close>.\<close>

definition SymDownloadAllSymbols_reload ::
  "debugger \<Rightarrow> engine \<Rightarrow> SYMBOLMODULEINFO list \<Rightarrow> string list \<Rightarrow> world \<Rightarrow> world" where
  "SymDownloadAllSymbols_reload dbg eng modList search_paths w =
     fold (\<lambda>module w'. SymDownloadAllSymbols_paths dbg eng module search_paths w') modList w"

text \<open>\<^verbatim>\<open>sprintf_s\<close> into a buffer of \<open>n\<close> characters; the text is already formatted.\<close>

definition sprintf_s :: "nat \<Rightarrow> string \<Rightarrow> fault + string" where
  "sprintf_s n text = (if length text < n then Inr text else Inl InvalidParameter)"

definition SymDownloadAllSymbols ::
  "debugger \<Rightarrow> engine \<Rightarrow> string option \<Rightarrow> world \<Rightarrow> fault + world" where
  "SymDownloadAllSymbols dbg eng SymbolStore w =
     (let store = (case SymbolStore of
                     None \<Rightarrow> ''https://msdl.microsoft.com/download/symbols''
                   | Some s \<Rightarrow> s)
      in case SymGetModuleList dbg [] of
           Inl e \<Rightarrow> Inl e
         | Inr (ok, modList) \<Rightarrow>
             if \<not> ok then Inr w
             else if modList = [] then Inr w
             else
               (case SafeSymGetSearchPathW eng MAX_PATH w of
                  (None, w1) \<Rightarrow> Inr (dputs ''SymGetSearchPathW failed!'' w1)
                | (Some oldSearchPath, w1) \<Rightarrow>
                    (case sprintf_s (MAX_PATH * 2)
                            (''SRV*'' @ szSymbolCachePath dbg @ ''*'' @ store) of
                       Inl e \<Rightarrow> Inl e
                     | Inr customSearchPath \<Rightarrow>
                         (case SafeSymGetOptions w1 of
                            (symOptions, w2) \<Rightarrow>
                              (let w3 = SafeSymSetOptions (symOptions AND NOT SYMOPT_IGNORE_CVREC) w2;
                                   search_paths = [[], Utf8ToUtf16 dbg customSearchPath];
                                   w4 = SymDownloadAllSymbols_reload dbg eng modList search_paths w3;
                                   w5 = SafeSymSetOptions symOptions w4
                               in case SafeSymSetSearchPathW eng oldSearchPath w5 of
                                    (True, w6) \<Rightarrow> Inr w6
                                  | (False, w6) \<Rightarrow>
                                      Inr (dputs ''SymSetSearchPathW (2) failed!'' w6))))))"

section \<open>SymAddrFromName, SymGetSymbolicName, SymGetSourceLine\<close>

text \<open>
  \<open>Name\<close> and \<open>Address\<close> are nullable pointers: \<open>Address = Some a\<close> is a pointer to
  a cell holding \<open>a\<close>. The result is the returned flag, the cell after the call and the
  world after the call.
\<close>

definition SymAddrFromName ::
  "engine \<Rightarrow> string option \<Rightarrow> duint option \<Rightarrow> world \<Rightarrow> bool \<times> duint option \<times> world" where
  "SymAddrFromName eng Name Address w =
     (case Name of
        None \<Rightarrow> (False, Address, w)
      | Some nm \<Rightarrow>
          if nm = [] then (False, Address, w)
          else if Address = None then (False, Address, w)
          else if strnicmp_eq nm ''Ordinal'' 7 then (False, Address, w)
          else
            (case SafeSymFromName eng nm w of
               (None, w') \<Rightarrow> (False, Address, w')
             | (Some symbol_Address, w') \<Rightarrow> (True, Some symbol_Address, w')))"

definition SymGetSymbolicName :: "debugger \<Rightarrow> duint \<Rightarrow> string" where
  "SymGetSymbolicName dbg Address =
     (let hasModule = ModNameFromAddr dbg Address in
      case DbgGetLabelAt dbg Address of
        None \<Rightarrow>
          (case hasModule of
             Some modname \<Rightarrow> modname @ ''.'' @ sprintf_p dbg Address
           | None \<Rightarrow> [])
      | Some label \<Rightarrow>
          (case hasModule of
             Some modname \<Rightarrow> ''<'' @ modname @ ''.'' @ label @ ''>''
           | None \<Rightarrow> ''<'' @ label @ ''>''))"


section \<open>Descriptions used in the statements\<close>

text \<open>
  The three groups of symbols of section 4.1 of the specification, as lists: the indexed
  symbols of the module found at \<open>Base\<close> when its SymbolSource is open, the pseudo symbol
  of the entry point, and the imports.
\<close>

definition spec_indexed_symbols :: "debugger \<Rightarrow> duint \<Rightarrow> SYMBOLINFO list" where
  "spec_indexed_symbols dbg Base =
     (case ModInfoFromAddr dbg Base of
        None \<Rightarrow> []
      | Some modInfo \<Rightarrow>
          (case symbols modInfo of
             None \<Rightarrow> []
           | Some src \<Rightarrow>
               if isOpen src
               then map (SymEnum_symbol Base) (filter (\<lambda>info. \<not> SymEnum_skip Base info) (symbolList src))
               else []))"

definition spec_entry_point_symbols :: "debugger \<Rightarrow> duint \<Rightarrow> SYMBOLINFO list" where
  "spec_entry_point_symbols dbg Base =
     (if ModEntryFromAddr dbg Base \<noteq> 0 then [entry_point_symbol (ModEntryFromAddr dbg Base)] else [])"

definition spec_import_symbols :: "debugger \<Rightarrow> duint \<Rightarrow> SYMBOLINFO list" where
  "spec_import_symbols dbg Base =
     map (\<lambda>(b, a, nm, moduleName). SymEnumImports_symbol dbg a nm) (apienumimports dbg Base)"

text \<open>
  \<^verbatim>\<open>SymEnum\<close> calls \<^verbatim>\<open>modInfo->symbols->isOpen()\<close> without testing the pointer. The
  predicate says that the module found at \<open>Base\<close>, if there is one, has a SymbolSource.
\<close>

definition symbols_not_null :: "debugger \<Rightarrow> duint \<Rightarrow> bool" where
  "symbols_not_null dbg Base =
     (case ModInfoFromAddr dbg Base of None \<Rightarrow> True | Some modInfo \<Rightarrow> symbols modInfo \<noteq> None)"

text \<open>
  The snapshot entry of a module as section 4.5 of the specification describes it, and the
  condition under which \<^verbatim>\<open>strcpy_s\<close> and \<^verbatim>\<open>strcat_s\<close> have room for the name of every
  module.
\<close>

definition spec_module_entry :: "MODINFO \<Rightarrow> SYMBOLMODULEINFO" where
  "spec_module_entry m =
     \<lparr> SYMBOLMODULEINFO.base = MODINFO.base m,
       SYMBOLMODULEINFO.name = MODINFO.name m @ extension m \<rparr>"

definition names_fit :: "debugger \<Rightarrow> bool" where
  "names_fit dbg =
     list_all (\<lambda>m. length (MODINFO.name m) + length (extension m) < MAX_MODULE_SIZE) (ModEnum dbg)"

text \<open>
  The custom search path that \<^verbatim>\<open>SymDownloadAllSymbols\<close> formats, and the condition under
  which \<^verbatim>\<open>sprintf_s\<close> has room for it.
\<close>

definition spec_custom_path :: "debugger \<Rightarrow> string option \<Rightarrow> string" where
  "spec_custom_path dbg SymbolStore =
     ''SRV*'' @ szSymbolCachePath dbg @ ''*'' @
       (case SymbolStore of
          None \<Rightarrow> ''https://msdl.microsoft.com/download/symbols''
        | Some s \<Rightarrow> s)"

definition custom_path_fits :: "debugger \<Rightarrow> string option \<Rightarrow> bool" where
  "custom_path_fits dbg SymbolStore = (length (spec_custom_path dbg SymbolStore) < MAX_PATH * 2)"

text \<open>
  The world in which \<^verbatim>\<open>SymDownloadAllSymbols\<close> makes its last engine call (line 254 of
  the file): the search path and the options have been read, the flag has been cleared,
  every module has been tried on the two candidate paths, and the saved options have been
  set again.
\<close>

definition SymDownloadAllSymbols_synced :: "debugger \<Rightarrow> engine \<Rightarrow> string option \<Rightarrow> world \<Rightarrow> world" where
  "SymDownloadAllSymbols_synced dbg eng SymbolStore w =
     SafeSymSetOptions (options w)
       (SymDownloadAllSymbols_reload dbg eng (map spec_module_entry (ModEnum dbg))
          [[], Utf8ToUtf16 dbg (spec_custom_path dbg SymbolStore)]
          (SafeSymSetOptions (options w AND NOT SYMOPT_IGNORE_CVREC)
             (log_event Call_SymGetOptions (log_event Call_SymGetSearchPathW w))))"

text \<open>
  The rendering of \<^verbatim>\<open>%p\<close> by the Microsoft C runtime, with which the file is built, for
  a 64-bit pointer: sixteen hexadecimal digits in upper case, without a prefix.
\<close>

definition hex_digit :: "nat \<Rightarrow> char" where
  "hex_digit n = ''0123456789ABCDEF'' ! n"

definition sprintf_p_msvc :: "duint \<Rightarrow> string" where
  "sprintf_p_msvc a = map (\<lambda>i. hex_digit (unat (drop_bit (4 * i) a AND 0xF))) (rev [0..<16])"

text \<open>The calls of \<^verbatim>\<open>SymSetOptions\<close> in a trace, and the option flags with them.\<close>

definition is_SetOptions :: "event \<Rightarrow> bool" where
  "is_SetOptions e = (case e of Call_SymSetOptions opts \<Rightarrow> True | _ \<Rightarrow> False)"

definition options_view :: "world \<Rightarrow> 32 word \<times> event list" where
  "options_view w = (options w, filter is_SetOptions (trace w))"

section \<open>Example inputs\<close>

text \<open>
  One module \<^verbatim>\<open>app.exe\<close> at 0x400000 with an open SymbolSource of four symbols (two of
  them named like ordinals, one at the module base), an entry point at 0x401000 and two
  imports.
\<close>

definition example_source :: SymbolSourceBase where
  "example_source =
     \<lparr> isEmptySymbolSource = False,
       isOpen = True,
       symbolList =
         [\<lparr> SymbolInfo.addr = 0x1000, decoratedName = ''?f@@YAXXZ'', undecoratedName = ''void f(void)'' \<rparr>,
          \<lparr> SymbolInfo.addr = 0, decoratedName = ''Ordinal1'', undecoratedName = ''Ordinal1'' \<rparr>,
          \<lparr> SymbolInfo.addr = 0x2000, decoratedName = ''Ordinal2'', undecoratedName = ''Ordinal2'' \<rparr>,
          \<lparr> SymbolInfo.addr = 0x3000, decoratedName = ''__imp_puts'', undecoratedName = ''__imp_puts'' \<rparr>],
       findSourceLineInfo =
         (\<lambda>rva. if rva = 0x1000 then Some \<lparr> lineNumber = 42, sourceFile = ''main.c'' \<rparr> else None) \<rparr>"

definition example_module :: MODINFO where
  "example_module =
     \<lparr> MODINFO.base = 0x400000, MODINFO.name = ''app'', extension = ''.exe'',
       symbols = Some example_source \<rparr>"

definition example_debugger :: debugger where
  "example_debugger =
     \<lparr> ModInfoFromAddr = (\<lambda>a. if 0x400000 \<le> a \<and> a < 0x410000 then Some example_module else None),
       ModEntryFromAddr = (\<lambda>a. if 0x400000 \<le> a \<and> a < 0x410000 then 0x401000 else 0),
       ModNameFromAddr = (\<lambda>a. if 0x400000 \<le> a \<and> a < 0x410000 then Some ''app'' else None),
       ModEnum = [example_module],
       apienumimports =
         (\<lambda>a. if a = 0x400000
              then [(0x400000, 0x405000, ''?g@@YAXXZ'', ''lib.dll''),
                    (0x400000, 0x405008, ''puts'', ''msvcrt.dll'')]
              else []),
       SafeUnDecorateSymbolName =
         (\<lambda>nm. if nm = ''?g@@YAXXZ'' then Some ''void g(void)''
               else if nm = ''puts'' then Some ''puts'' else None),
       DbgGetLabelAt =
         (\<lambda>a. if a = 0x401000 then Some ''start'' else if a = 0x500000 then Some ''heap'' else None),
       GetModuleFileNameExW = (\<lambda>a. if a = 0x400000 then Some ''C:/app.exe'' else None),
       szSymbolCachePath = ''C:/symbols'',
       Utf8ToUtf16 = (\<lambda>s. s),
       sprintf_p = sprintf_p_msvc \<rparr>"

text \<open>The example debugger with a second module \<^verbatim>\<open>lib.dll\<close> at 0x10000000.\<close>

definition library_module :: MODINFO where
  "library_module =
     \<lparr> MODINFO.base = 0x10000000, MODINFO.name = ''lib'', extension = ''.dll'', symbols = None \<rparr>"

definition two_module_debugger :: debugger where
  "two_module_debugger =
     example_debugger
       \<lparr> ModEnum := [example_module, library_module],
         GetModuleFileNameExW :=
           (\<lambda>a. if a = 0x400000 then Some ''C:/app.exe''
                else if a = 0x10000000 then Some ''C:/lib.dll'' else None) \<rparr>"

text \<open>
  The example debugger when the module at 0x400000 has no SymbolSource (a null pointer), and
  when its name has 252 characters, which with the extension do not fit a name field of
  256.
\<close>

definition null_symbols_debugger :: debugger where
  "null_symbols_debugger =
     example_debugger
       \<lparr> ModInfoFromAddr :=
           (\<lambda>a. if a = 0x400000 then Some (example_module \<lparr> symbols := None \<rparr>) else None) \<rparr>"

definition long_name_debugger :: debugger where
  "long_name_debugger =
     example_debugger
       \<lparr> ModEnum := [example_module \<lparr> MODINFO.name := replicate 252 (CHR ''a'') \<rparr>] \<rparr>"

text \<open>
  A debugger with the single module \<^verbatim>\<open>lib.dll\<close> at 0x400000 over a given SymbolSource:
  no entry point, no imports, no labels, and an image path that cannot be resolved.
\<close>

definition single_module_debugger :: "SymbolSourceBase \<Rightarrow> debugger" where
  "single_module_debugger src =
     \<lparr> ModInfoFromAddr =
         (\<lambda>a. if a = 0x400000
              then Some \<lparr> MODINFO.base = 0x400000, MODINFO.name = ''lib'', extension = ''.dll'',
                          symbols = Some src \<rparr>
              else None),
       ModEntryFromAddr = (\<lambda>a. 0),
       ModNameFromAddr = (\<lambda>a. if a = 0x400000 then Some ''lib'' else None),
       ModEnum = [\<lparr> MODINFO.base = 0x400000, MODINFO.name = ''lib'', extension = ''.dll'',
                    symbols = Some src \<rparr>],
       apienumimports = (\<lambda>a. []),
       SafeUnDecorateSymbolName = (\<lambda>nm. None),
       DbgGetLabelAt = (\<lambda>a. None),
       GetModuleFileNameExW = (\<lambda>a. None),
       szSymbolCachePath = ''C:/symbols'',
       Utf8ToUtf16 = (\<lambda>s. s),
       sprintf_p = (\<lambda>a. ''?'') \<rparr>"

text \<open>The same ordinal name at the module base and sixteen bytes above it.\<close>

definition ordinal_source :: SymbolSourceBase where
  "ordinal_source =
     \<lparr> isEmptySymbolSource = False,
       isOpen = True,
       symbolList =
         [\<lparr> SymbolInfo.addr = 0, decoratedName = ''Ordinal7'', undecoratedName = ''Ordinal7'' \<rparr>,
          \<lparr> SymbolInfo.addr = 0x10, decoratedName = ''Ordinal7'', undecoratedName = ''Ordinal7'' \<rparr>],
       findSourceLineInfo = (\<lambda>rva. None) \<rparr>"

text \<open>A symbol without an undecorated name, and a symbol without any name.\<close>

definition empty_names_source :: SymbolSourceBase where
  "empty_names_source =
     \<lparr> isEmptySymbolSource = False,
       isOpen = True,
       symbolList =
         [\<lparr> SymbolInfo.addr = 0x1000, decoratedName = ''main'', undecoratedName = [] \<rparr>,
          \<lparr> SymbolInfo.addr = 0x2000, decoratedName = [], undecoratedName = [] \<rparr>],
       findSourceLineInfo = (\<lambda>rva. None) \<rparr>"


text \<open>
  An engine that accepts every call and finds a debug database for the module at 0x400000
  only; and one that rejects every change of the search path once that module was loaded.
  The world before the call has a search path and two option flags set, one of them
  \<^verbatim>\<open>SYMOPT_IGNORE_CVREC\<close>.
\<close>

definition accepting_engine :: engine where
  "accepting_engine =
     \<lparr> SymGetSearchPathW = (\<lambda>w n. Some (searchPath w)),
       SymSetSearchPathW = (\<lambda>w p. True),
       SymUnloadModule64 = (\<lambda>w b. True),
       SymLoadModuleExW = (\<lambda>w p b. True),
       SymGetModuleInfoW64 = (\<lambda>w b. if b = 0x400000 then Some SymPdb else Some SymExport),
       SymFromName = (\<lambda>w nm. if nm = ''main'' then Some 0x401000 else None) \<rparr>"

definition failing_restore_engine :: engine where
  "failing_restore_engine =
     accepting_engine
       \<lparr> SymSetSearchPathW :=
           (\<lambda>w p. Call_SymLoadModuleExW ''C:/app.exe'' 0x400000 \<notin> set (trace w)) \<rparr>"

definition initial_world :: world where
  "initial_world = \<lparr> searchPath = ''C:/old'', options = 0x92, trace = [] \<rparr>"

section \<open>Lemmas about SymEnum\<close>

lemmas example_defs = example_debugger_def example_module_def example_source_def

lemmas SymEnum_defs = SymEnum_def SymEnum_indexed_def SymEnum_lambda_def SymEnum_skip_def
  SymEnum_symbol_def SymEnum_decorated_def SymEnum_undecorated_def SymEnumImports_def
  SymEnumImports_symbol_def entry_point_symbol_def record_symbol_def c_str_def
  strncpy_s_TRUNCATE_def MAX_SYM_NAME_def strncmp_eq_def

lemma enumSymbols_SymEnum_lambda:
  "enumSymbols syms (SymEnum_lambda Base cb) u =
     (True, fold (\<lambda>symbol u. snd (cb symbol u))
              (map (SymEnum_symbol Base) (filter (\<lambda>info. \<not> SymEnum_skip Base info) syms)) u)"
  by (induction syms arbitrary: u) (simp_all add: SymEnum_lambda_def)

lemma SymEnumImports_fold:
  "SymEnumImports dbg Base cb u =
     fold (\<lambda>symbol u. snd (cb symbol u)) (spec_import_symbols dbg Base) u"
  by (simp add: SymEnumImports_def spec_import_symbols_def fold_map comp_def case_prod_unfold)

lemma SymEnum_indexed_fold:
  assumes "symbols_not_null dbg Base"
  shows "SymEnum_indexed dbg Base cb u =
     Inr (fold (\<lambda>symbol u. snd (cb symbol u)) (spec_indexed_symbols dbg Base) u)"
  using assms
  by (auto simp: SymEnum_indexed_def spec_indexed_symbols_def symbols_not_null_def
        enumSymbols_SymEnum_lambda split: option.splits)

lemma example_symbols_not_null: "symbols_not_null example_debugger 0x400000"
  by (simp add: symbols_not_null_def example_defs)

lemma snd_record_symbol: "snd (record_symbol c symbol seen) = seen @ [symbol]"
  by (simp add: record_symbol_def)

lemma fold_snoc: "fold (\<lambda>x xs. xs @ [x]) ys seen = seen @ ys"
  by (induction ys arbitrary: seen) simp_all

lemma spec_indexed_symbols_open:
  assumes "ModInfoFromAddr dbg Base = Some modInfo" and "symbols modInfo = Some src" and "isOpen src"
  shows "spec_indexed_symbols dbg Base =
     map (SymEnum_symbol Base) (filter (\<lambda>info. \<not> SymEnum_skip Base info) (symbolList src))"
  using assms by (simp add: spec_indexed_symbols_def)

lemma SymEnum_decorated_eq:
  "decoratedName info = undecoratedName info \<Longrightarrow> SymEnum_undecorated info = SymEnum_decorated info"
  by (simp add: SymEnum_undecorated_def SymEnum_decorated_def)

lemma SymEnum_order:
  assumes "symbols_not_null dbg Base"
  shows "SymEnum dbg Base EnumCallback UserData =
     Inr (fold (\<lambda>symbol u. snd (EnumCallback symbol u))
            (spec_indexed_symbols dbg Base @ spec_entry_point_symbols dbg Base
               @ spec_import_symbols dbg Base) UserData)"
  by (simp add: SymEnum_def SymEnum_indexed_fold [OF assms] SymEnumImports_fold
        spec_entry_point_symbols_def entry_point_symbol_def Let_def)

section \<open>Lemmas about SymGetModuleList\<close>

lemma ModEnum_each_exact:
  "ModEnum_each ms SymGetModuleList_lambda L =
     (if list_all (\<lambda>m. length (MODINFO.name m) + length (extension m) < MAX_MODULE_SIZE) ms
      then Inr (L @ map spec_module_entry ms) else Inl InvalidParameter)"
  by (induction ms arbitrary: L)
     (auto simp: SymGetModuleList_lambda_def strcpy_s_def strcat_s_def spec_module_entry_def)

lemma SymGetModuleList_exact:
  "SymGetModuleList dbg List =
     (if names_fit dbg then Inr (True, List @ map spec_module_entry (ModEnum dbg))
      else Inl InvalidParameter)"
  by (simp add: SymGetModuleList_def ModEnum_each_exact names_fit_def)

lemma sint_count: "n < 2 ^ 31 \<Longrightarrow> sint (word_of_nat n :: 32 word) = int n"
  by (simp add: signed_of_nat signed_take_bit_int_eq_self)

section \<open>Lemmas about SymDownloadAllSymbols\<close>

lemma view_log_event:
  "\<not> is_SetOptions e \<Longrightarrow> options_view (log_event e w) = options_view w"
  by (simp add: options_view_def log_event_def)

lemma view_dprintf: "options_view (dprintf f args w) = options_view w"
  by (simp add: dprintf_def view_log_event is_SetOptions_def)

lemma view_dputs: "options_view (dputs f w) = options_view w"
  by (simp add: dputs_def view_log_event is_SetOptions_def)

lemma view_SetSearchPath:
  "SafeSymSetSearchPathW eng p w = (ok, w') \<Longrightarrow> options_view w' = options_view w"
  by (auto simp: SafeSymSetSearchPathW_def options_view_def log_event_def is_SetOptions_def
      split: if_splits)

lemma view_GetModuleFileName:
  "call_GetModuleFileNameExW dbg b w = (r, w') \<Longrightarrow> options_view w' = options_view w"
  by (auto simp: call_GetModuleFileNameExW_def view_log_event is_SetOptions_def)

lemma view_Unload:
  "SafeSymUnloadModule64 eng b w = (r, w') \<Longrightarrow> options_view w' = options_view w"
  by (auto simp: SafeSymUnloadModule64_def view_log_event is_SetOptions_def)

lemma view_Load:
  "SafeSymLoadModuleExW eng p b w = (r, w') \<Longrightarrow> options_view w' = options_view w"
  by (auto simp: SafeSymLoadModuleExW_def view_log_event is_SetOptions_def)

lemma view_GetModuleInfo:
  "SafeSymGetModuleInfoW64 eng b w = (r, w') \<Longrightarrow> options_view w' = options_view w"
  by (auto simp: SafeSymGetModuleInfoW64_def view_log_event is_SetOptions_def)

lemma view_paths:
  "options_view (SymDownloadAllSymbols_paths dbg eng module ps w) = options_view w"
proof (induction ps arbitrary: w)
  case Nil
  show ?case by simp
next
  case (Cons cur_path rest)
  obtain ok1 w1 where s1: "SafeSymSetSearchPathW eng cur_path w = (ok1, w1)"
    by (cases "SafeSymSetSearchPathW eng cur_path w")
  note v1 = view_SetSearchPath [OF s1]
  obtain r2 w2 where s2: "call_GetModuleFileNameExW dbg (SYMBOLMODULEINFO.base module)
      (dprintf ''Downloading symbols for %s...\<newline>'' [ArgStr (SYMBOLMODULEINFO.name module)] w1) = (r2, w2)"
    by (cases "call_GetModuleFileNameExW dbg (SYMBOLMODULEINFO.base module)
      (dprintf ''Downloading symbols for %s...\<newline>'' [ArgStr (SYMBOLMODULEINFO.name module)] w1)")
  have v2: "options_view w2 = options_view w"
    using view_GetModuleFileName [OF s2] v1 by (simp add: view_dprintf)
  obtain ok3 w3 where s3: "SafeSymUnloadModule64 eng (SYMBOLMODULEINFO.base module) w2 = (ok3, w3)"
    by (cases "SafeSymUnloadModule64 eng (SYMBOLMODULEINFO.base module) w2")
  have v3: "options_view w3 = options_view w"
    using view_Unload [OF s3] v2 by simp
  show ?case
  proof (cases r2)
    case None
    then show ?thesis
      using s1 s2 v1 v2 by (cases ok1) (simp_all add: Cons.IH view_dprintf view_dputs)
  next
    case (Some modulePath)
    obtain ok4 w4 where s4: "SafeSymLoadModuleExW eng modulePath (SYMBOLMODULEINFO.base module) w3 = (ok4, w4)"
      by (cases "SafeSymLoadModuleExW eng modulePath (SYMBOLMODULEINFO.base module) w3")
    have v4: "options_view w4 = options_view w"
      using view_Load [OF s4] v3 by simp
    obtain r5 w5 where s5: "SafeSymGetModuleInfoW64 eng (SYMBOLMODULEINFO.base module) w4 = (r5, w5)"
      by (cases "SafeSymGetModuleInfoW64 eng (SYMBOLMODULEINFO.base module) w4")
    have v5: "options_view w5 = options_view w"
      using view_GetModuleInfo [OF s5] v4 by simp
    show ?thesis
      using Some s1 s2 s3 s4 s5 v1 v2 v3 v4 v5
      by (cases ok1; cases ok3; cases ok4; cases r5)
         (simp_all add: Cons.IH view_dprintf view_dputs)
  qed
qed

lemma view_reload:
  "options_view (SymDownloadAllSymbols_reload dbg eng modList ps w) = options_view w"
  unfolding SymDownloadAllSymbols_reload_def
  by (induction modList arbitrary: w) (simp_all add: view_paths)

lemma log_event_simps:
  "options (log_event e w) = options w"
  "searchPath (log_event e w) = searchPath w"
  "trace (log_event e w) = trace w @ [e]"
  by (simp_all add: log_event_def)

lemma view_SetOptions:
  "options_view (SafeSymSetOptions opts w) =
     (opts, filter is_SetOptions (trace w) @ [Call_SymSetOptions opts])"
  by (simp add: SafeSymSetOptions_def options_view_def log_event_simps is_SetOptions_def)

lemmas engine_defs = SafeSymGetSearchPathW_def SafeSymSetSearchPathW_def SafeSymGetOptions_def
  SafeSymSetOptions_def SafeSymUnloadModule64_def SafeSymLoadModuleExW_def
  SafeSymGetModuleInfoW64_def SafeSymFromName_def call_GetModuleFileNameExW_def
  log_event_def dputs_def dprintf_def

lemmas download_defs = SymDownloadAllSymbols_def SymDownloadAllSymbols_reload_def
  SymGetModuleList_def SymGetModuleList_lambda_def strcpy_s_def strcat_s_def sprintf_s_def
  MAX_MODULE_SIZE_def MAX_PATH_def SYMOPT_IGNORE_CVREC_def

lemma sp_SetSearchPath:
  "SafeSymSetSearchPathW eng p w = (ok, w') \<Longrightarrow> searchPath w' = (if ok then p else searchPath w)"
  by (auto simp: SafeSymSetSearchPathW_def log_event_simps split: if_splits)

lemma sp_GetModuleFileName:
  "call_GetModuleFileNameExW dbg b w = (r, w') \<Longrightarrow> searchPath w' = searchPath w"
  by (auto simp: call_GetModuleFileNameExW_def log_event_simps)

lemma sp_Unload:
  "SafeSymUnloadModule64 eng b w = (r, w') \<Longrightarrow> searchPath w' = searchPath w"
  by (auto simp: SafeSymUnloadModule64_def log_event_simps)

lemma sp_Load:
  "SafeSymLoadModuleExW eng p b w = (r, w') \<Longrightarrow> searchPath w' = searchPath w"
  by (auto simp: SafeSymLoadModuleExW_def log_event_simps)

lemma sp_GetModuleInfo:
  "SafeSymGetModuleInfoW64 eng b w = (r, w') \<Longrightarrow> searchPath w' = searchPath w"
  by (auto simp: SafeSymGetModuleInfoW64_def log_event_simps)

lemma sp_dprintf: "searchPath (dprintf f args w) = searchPath w"
  by (simp add: dprintf_def log_event_simps)

lemma sp_dputs: "searchPath (dputs f w) = searchPath w"
  by (simp add: dputs_def log_event_simps)

lemma sp_SetOptions: "searchPath (SafeSymSetOptions opts w) = searchPath w"
  by (simp add: SafeSymSetOptions_def log_event_simps)

lemma sp_paths:
  "searchPath (SymDownloadAllSymbols_paths dbg eng module ps w) \<in> insert (searchPath w) (set ps)"
proof (induction ps arbitrary: w)
  case Nil
  show ?case by simp
next
  case (Cons cur_path rest)
  define P where "P = (\<lambda>x :: world. searchPath x \<in> insert (searchPath w) (set (cur_path # rest)))"
  have step: "P (SymDownloadAllSymbols_paths dbg eng module rest x)"
    if "searchPath x = searchPath w \<or> searchPath x = cur_path" for x
    using Cons.IH [of x] that by (auto simp: P_def)
  have stop: "P x" if "searchPath x = cur_path" for x
    using that by (simp add: P_def)
  obtain ok1 w1 where s1: "SafeSymSetSearchPathW eng cur_path w = (ok1, w1)"
    by (cases "SafeSymSetSearchPathW eng cur_path w")
  have p1: "searchPath w1 = searchPath w \<or> searchPath w1 = cur_path"
    using sp_SetSearchPath [OF s1] by (cases ok1) simp_all
  have p1': "ok1 \<Longrightarrow> searchPath w1 = cur_path"
    using sp_SetSearchPath [OF s1] by simp
  obtain r2 w2 where s2: "call_GetModuleFileNameExW dbg (SYMBOLMODULEINFO.base module)
      (dprintf ''Downloading symbols for %s...\<newline>'' [ArgStr (SYMBOLMODULEINFO.name module)] w1) = (r2, w2)"
    by (cases "call_GetModuleFileNameExW dbg (SYMBOLMODULEINFO.base module)
      (dprintf ''Downloading symbols for %s...\<newline>'' [ArgStr (SYMBOLMODULEINFO.name module)] w1)")
  have p2: "searchPath w2 = searchPath w1"
    using sp_GetModuleFileName [OF s2] by (simp add: sp_dprintf)
  obtain ok3 w3 where s3: "SafeSymUnloadModule64 eng (SYMBOLMODULEINFO.base module) w2 = (ok3, w3)"
    by (cases "SafeSymUnloadModule64 eng (SYMBOLMODULEINFO.base module) w2")
  have p3: "searchPath w3 = searchPath w1"
    using sp_Unload [OF s3] p2 by simp
  have "P (SymDownloadAllSymbols_paths dbg eng module (cur_path # rest) w)"
  proof (cases r2)
    case None
    then show ?thesis
      using s1 s2 p1 p2 by (cases ok1) (simp_all add: step sp_dprintf sp_dputs)
  next
    case (Some modulePath)
    obtain ok4 w4 where s4: "SafeSymLoadModuleExW eng modulePath (SYMBOLMODULEINFO.base module) w3 = (ok4, w4)"
      by (cases "SafeSymLoadModuleExW eng modulePath (SYMBOLMODULEINFO.base module) w3")
    have p4: "searchPath w4 = searchPath w1"
      using sp_Load [OF s4] p3 by simp
    obtain r5 w5 where s5: "SafeSymGetModuleInfoW64 eng (SYMBOLMODULEINFO.base module) w4 = (r5, w5)"
      by (cases "SafeSymGetModuleInfoW64 eng (SYMBOLMODULEINFO.base module) w4")
    have p5: "searchPath w5 = searchPath w1"
      using sp_GetModuleInfo [OF s5] p4 by simp
    show ?thesis
      using Some s1 s2 s3 s4 s5 p1 p1' p2 p3 p4 p5
      by (cases ok1; cases ok3; cases ok4; cases r5)
         (simp_all add: step stop sp_dprintf sp_dputs)
  qed
  then show ?case by (simp add: P_def)
qed

lemma sp_reload:
  "searchPath (SymDownloadAllSymbols_reload dbg eng modList ps w) \<in> insert (searchPath w) (set ps)"
  unfolding SymDownloadAllSymbols_reload_def
proof (induction modList arbitrary: w)
  case Nil
  show ?case by simp
next
  case (Cons m ms)
  show ?case
    using Cons.IH [of "SymDownloadAllSymbols_paths dbg eng m ps w"] sp_paths [of dbg eng m ps w]
    by auto
qed

lemma SymDownloadAllSymbols_exact:
  assumes mods: "ModEnum dbg \<noteq> []"
    and read: "SymGetSearchPathW eng w MAX_PATH = Some (searchPath w)"
    and fit: "names_fit dbg" "custom_path_fits dbg SymbolStore"
  shows "SymDownloadAllSymbols dbg eng SymbolStore w =
     Inr (case SafeSymSetSearchPathW eng (searchPath w)
                 (SymDownloadAllSymbols_synced dbg eng SymbolStore w) of
            (True, w6) \<Rightarrow> w6
          | (False, w6) \<Rightarrow> dputs ''SymSetSearchPathW (2) failed!'' w6)"
  using mods read fit(2)
  by (simp add: SymDownloadAllSymbols_def SymGetModuleList_exact fit(1) SafeSymGetSearchPathW_def
        SafeSymGetOptions_def sprintf_s_def Let_def log_event_simps SymDownloadAllSymbols_synced_def
        spec_custom_path_def custom_path_fits_def split: prod.splits bool.splits)

lemma synced_view:
  "options_view (SymDownloadAllSymbols_synced dbg eng SymbolStore w) =
     (options w, filter is_SetOptions (trace w) @
        [Call_SymSetOptions (options w AND NOT SYMOPT_IGNORE_CVREC), Call_SymSetOptions (options w)])"
proof -
  have "options_view (log_event Call_SymGetOptions (log_event Call_SymGetSearchPathW w)) = options_view w"
    by (simp add: view_log_event is_SetOptions_def)
  then show ?thesis
    by (simp add: SymDownloadAllSymbols_synced_def view_SetOptions options_view_def
          view_reload [unfolded options_view_def, simplified]
          SafeSymSetOptions_def log_event_simps is_SetOptions_def)
qed

lemma synced_searchPath:
  "searchPath (SymDownloadAllSymbols_synced dbg eng SymbolStore w) \<in>
     {searchPath w, [], Utf8ToUtf16 dbg (spec_custom_path dbg SymbolStore)}"
  using sp_reload [of dbg eng "map spec_module_entry (ModEnum dbg)"
      "[[], Utf8ToUtf16 dbg (spec_custom_path dbg SymbolStore)]"
      "SafeSymSetOptions (options w AND NOT SYMOPT_IGNORE_CVREC)
             (log_event Call_SymGetOptions (log_event Call_SymGetSearchPathW w))"]
  by (auto simp: SymDownloadAllSymbols_synced_def sp_SetOptions log_event_simps)

section \<open>Lemmas about SymAddrFromName\<close>

lemma tolower_Ordinal: "map tolower ''Ordinal'' = ''ordinal''"
  by code_simp

lemma strnicmp_eq_Ordinal:
  "strnicmp_eq nm ''Ordinal'' 7 \<longleftrightarrow> map tolower (take 7 nm) = ''ordinal''"
  using tolower_Ordinal by (simp add: strnicmp_eq_def)

section \<open>Lemmas about the rendering of pointers\<close>

lemma hex_digit_in: "n < 16 \<Longrightarrow> hex_digit n \<in> set ''0123456789ABCDEF''"
  unfolding hex_digit_def by (rule nth_mem) simp

lemma unat_nibble: "unat (x AND (0xF :: duint)) < 16"
proof -
  have "x AND 0xF \<le> 0xF"
    by (simp add: word_and_le1)
  then have "unat (x AND 0xF) \<le> 15"
    by (simp add: word_le_nat_alt)
  then show ?thesis by simp
qed

lemma sprintf_p_msvc_format:
  "length (sprintf_p_msvc a) = 16 \<and> set (sprintf_p_msvc a) \<subseteq> set ''0123456789ABCDEF''"
  unfolding sprintf_p_msvc_def using hex_digit_in [OF unat_nibble] by auto

section \<open>Claims\<close>

text \<open>
  C1 holds of the code except where the module found at the base has no SymbolSource:
  \<^verbatim>\<open>SymEnum\<close> calls \<^verbatim>\<open>modInfo->symbols->isOpen()\<close> without testing the pointer, which
  \<^verbatim>\<open>SymGetSourceLine\<close> does test. With a null pointer the claim asks for no indexed symbol,
  then the pseudo symbol of the entry point, then the two imports; the code faults before
  the visitor is called once.
\<close>

theorem SymEnum_null_symbols_fault:
  "ModInfoFromAddr null_symbols_debugger 0x400000 = Some (example_module \<lparr> symbols := None \<rparr>) \<and>
   spec_indexed_symbols null_symbols_debugger 0x400000
     @ spec_entry_point_symbols null_symbols_debugger 0x400000
     @ spec_import_symbols null_symbols_debugger 0x400000 =
     [\<lparr> SYMBOLINFO.addr = 0x401000, decoratedSymbol = Some ''OptionalHeader.AddressOfEntryPoint'',
        undecoratedSymbol = None, isImported = False \<rparr>,
      \<lparr> SYMBOLINFO.addr = 0x405000, decoratedSymbol = Some ''?g@@YAXXZ'',
        undecoratedSymbol = Some ''void g(void)'', isImported = True \<rparr>,
      \<lparr> SYMBOLINFO.addr = 0x405008, decoratedSymbol = Some ''puts'',
        undecoratedSymbol = None, isImported = True \<rparr>] \<and>
   SymEnum null_symbols_debugger 0x400000 (record_symbol True) [] = Inl NullPointerDereference"
  by (simp add: null_symbols_debugger_def spec_indexed_symbols_def spec_entry_point_symbols_def
        spec_import_symbols_def example_defs SymEnum_defs)

text \<open>
  C2 as stated fails: the last call of \<^verbatim>\<open>SymDownloadAllSymbols\<close> sets the saved search
  path again, and when the engine rejects that call the function reports it and returns.
  Here the read of the search path succeeds, the module list is not empty and the only
  module loads at once; the engine rejects the restore, and the search path stays empty.
\<close>

theorem SymDownloadAllSymbols_restore_counterexample:
  "SymGetSearchPathW failing_restore_engine initial_world MAX_PATH = Some ''C:/old'' \<and>
   ModEnum example_debugger \<noteq> [] \<and>
   SymDownloadAllSymbols example_debugger failing_restore_engine None initial_world =
     Inr \<lparr> searchPath = [], options = 0x92,
           trace =
             [Call_SymGetSearchPathW, Call_SymGetOptions, Call_SymSetOptions 0x12,
              Call_SymSetSearchPathW [],
              Console ''Downloading symbols for %s...\<newline>'' [ArgStr ''app.exe''],
              Call_GetModuleFileNameExW 0x400000,
              Call_SymUnloadModule64 0x400000,
              Call_SymLoadModuleExW ''C:/app.exe'' 0x400000,
              Call_SymGetModuleInfoW64 0x400000,
              Call_SymSetOptions 0x92,
              Call_SymSetSearchPathW ''C:/old'',
              Console ''SymSetSearchPathW (2) failed!'' []] \<rparr>"
  by (simp add: download_defs engine_defs example_defs failing_restore_engine_def
        accepting_engine_def initial_world_def)

text \<open>
  C2, amended. Let the module list be non-empty with names that fit the snapshot's name
  field, let the custom search path fit its buffer, and let the initial read return the
  engine's search path. Then \<^verbatim>\<open>SymDownloadAllSymbols\<close> returns; the option flags are the
  ones from before the call, and the calls of \<^verbatim>\<open>SymSetOptions\<close> made during the call are
  exactly two, the one that clears \<^verbatim>\<open>SYMOPT_IGNORE_CVREC\<close> and the one that restores the
  flags, whatever the engine answers to the calls made for the modules. The last engine
  call is the restore of the saved search path. When the engine accepts it, the search
  path is the one from before the call and nothing is reported. When the engine rejects
  it, the rejection is reported last and the search path stays what the loop over the
  modules left: the path from before the call or one of the two candidate paths.
\<close>

theorem SymDownloadAllSymbols_restores:
  assumes mods: "ModEnum dbg \<noteq> []"
    and read: "SymGetSearchPathW eng w MAX_PATH = Some (searchPath w)"
    and fit: "names_fit dbg" "custom_path_fits dbg SymbolStore"
  shows "\<exists>w'. SymDownloadAllSymbols dbg eng SymbolStore w = Inr w' \<and>
     options w' = options w \<and>
     filter is_SetOptions (trace w') =
       filter is_SetOptions (trace w) @
         [Call_SymSetOptions (options w AND NOT SYMOPT_IGNORE_CVREC),
          Call_SymSetOptions (options w)] \<and>
     (if SymSetSearchPathW eng (SymDownloadAllSymbols_synced dbg eng SymbolStore w) (searchPath w)
      then searchPath w' = searchPath w \<and>
           trace w' = trace (SymDownloadAllSymbols_synced dbg eng SymbolStore w) @
             [Call_SymSetSearchPathW (searchPath w)]
      else searchPath w' = searchPath (SymDownloadAllSymbols_synced dbg eng SymbolStore w) \<and>
           trace w' = trace (SymDownloadAllSymbols_synced dbg eng SymbolStore w) @
             [Call_SymSetSearchPathW (searchPath w),
              Console ''SymSetSearchPathW (2) failed!'' []]) \<and>
     searchPath (SymDownloadAllSymbols_synced dbg eng SymbolStore w) \<in>
       {searchPath w, [], Utf8ToUtf16 dbg (spec_custom_path dbg SymbolStore)}"
proof -
  let ?S = "SymDownloadAllSymbols_synced dbg eng SymbolStore w"
  have v: "options ?S = options w"
    "filter is_SetOptions (trace ?S) = filter is_SetOptions (trace w) @
        [Call_SymSetOptions (options w AND NOT SYMOPT_IGNORE_CVREC), Call_SymSetOptions (options w)]"
    using synced_view [of dbg eng SymbolStore w] by (simp_all add: options_view_def)
  show ?thesis
    using v synced_searchPath [of dbg eng SymbolStore w]
    by (simp add: SymDownloadAllSymbols_exact [OF assms] SafeSymSetSearchPathW_def
          log_event_simps dputs_def is_SetOptions_def)
qed

theorem SymDownloadAllSymbols_restores_witness:
  "ModEnum two_module_debugger \<noteq> [] \<and>
   SymGetSearchPathW accepting_engine initial_world MAX_PATH = Some (searchPath initial_world) \<and>
   names_fit two_module_debugger \<and> custom_path_fits two_module_debugger None \<and>
   SymSetSearchPathW accepting_engine
     (SymDownloadAllSymbols_synced two_module_debugger accepting_engine None initial_world)
     (searchPath initial_world) \<and>
   SymDownloadAllSymbols two_module_debugger accepting_engine None initial_world =
     Inr \<lparr> searchPath = ''C:/old'', options = 0x92,
           trace =
             [Call_SymGetSearchPathW, Call_SymGetOptions, Call_SymSetOptions 0x12,
              Call_SymSetSearchPathW [],
              Console ''Downloading symbols for %s...\<newline>'' [ArgStr ''app.exe''],
              Call_GetModuleFileNameExW 0x400000,
              Call_SymUnloadModule64 0x400000,
              Call_SymLoadModuleExW ''C:/app.exe'' 0x400000,
              Call_SymGetModuleInfoW64 0x400000,
              Call_SymSetSearchPathW [],
              Console ''Downloading symbols for %s...\<newline>'' [ArgStr ''lib.dll''],
              Call_GetModuleFileNameExW 0x10000000,
              Call_SymUnloadModule64 0x10000000,
              Call_SymLoadModuleExW ''C:/lib.dll'' 0x10000000,
              Call_SymGetModuleInfoW64 0x10000000,
              Call_SymSetSearchPathW ''SRV*C:/symbols*https://msdl.microsoft.com/download/symbols'',
              Console ''Downloading symbols for %s...\<newline>'' [ArgStr ''lib.dll''],
              Call_GetModuleFileNameExW 0x10000000,
              Call_SymUnloadModule64 0x10000000,
              Call_SymLoadModuleExW ''C:/lib.dll'' 0x10000000,
              Call_SymGetModuleInfoW64 0x10000000,
              Call_SymSetOptions 0x92,
              Call_SymSetSearchPathW ''C:/old''] \<rparr>"
proof -
  define final where "final =
     \<lparr> searchPath = ''C:/old'', options = 0x92 :: 32 word,
           trace =
             [Call_SymGetSearchPathW, Call_SymGetOptions, Call_SymSetOptions 0x12,
              Call_SymSetSearchPathW [],
              Console ''Downloading symbols for %s...\<newline>'' [ArgStr ''app.exe''],
              Call_GetModuleFileNameExW 0x400000,
              Call_SymUnloadModule64 0x400000,
              Call_SymLoadModuleExW ''C:/app.exe'' 0x400000,
              Call_SymGetModuleInfoW64 0x400000,
              Call_SymSetSearchPathW [],
              Console ''Downloading symbols for %s...\<newline>'' [ArgStr ''lib.dll''],
              Call_GetModuleFileNameExW 0x10000000,
              Call_SymUnloadModule64 0x10000000,
              Call_SymLoadModuleExW ''C:/lib.dll'' 0x10000000,
              Call_SymGetModuleInfoW64 0x10000000,
              Call_SymSetSearchPathW ''SRV*C:/symbols*https://msdl.microsoft.com/download/symbols'',
              Console ''Downloading symbols for %s...\<newline>'' [ArgStr ''lib.dll''],
              Call_GetModuleFileNameExW 0x10000000,
              Call_SymUnloadModule64 0x10000000,
              Call_SymLoadModuleExW ''C:/lib.dll'' 0x10000000,
              Call_SymGetModuleInfoW64 0x10000000,
              Call_SymSetOptions 0x92,
              Call_SymSetSearchPathW ''C:/old''] \<rparr>"
  have mods: "ModEnum two_module_debugger \<noteq> []"
    by (simp add: two_module_debugger_def)
  have read: "SymGetSearchPathW accepting_engine initial_world MAX_PATH = Some (searchPath initial_world)"
    by (simp add: accepting_engine_def)
  have fit1: "names_fit two_module_debugger"
    by (simp add: names_fit_def two_module_debugger_def example_defs library_module_def
          MAX_MODULE_SIZE_def)
  have fit2: "custom_path_fits two_module_debugger None"
    by (simp add: custom_path_fits_def spec_custom_path_def two_module_debugger_def example_defs
          MAX_PATH_def)
  have acc: "SymSetSearchPathW accepting_engine
     (SymDownloadAllSymbols_synced two_module_debugger accepting_engine None initial_world)
     (searchPath initial_world)"
    by (simp add: accepting_engine_def)
  have synced: "trace (SymDownloadAllSymbols_synced two_module_debugger accepting_engine None
      initial_world) = butlast (trace final)"
    by (simp add: final_def SymDownloadAllSymbols_synced_def SymDownloadAllSymbols_reload_def
          spec_custom_path_def spec_module_entry_def engine_defs example_defs accepting_engine_def
          initial_world_def two_module_debugger_def library_module_def SYMOPT_IGNORE_CVREC_def)
  obtain w' where run: "SymDownloadAllSymbols two_module_debugger accepting_engine None initial_world = Inr w'"
    and opts: "options w' = options initial_world"
    and path: "searchPath w' = searchPath initial_world"
    and tr: "trace w' = trace (SymDownloadAllSymbols_synced two_module_debugger accepting_engine
        None initial_world) @ [Call_SymSetSearchPathW (searchPath initial_world)]"
    using SymDownloadAllSymbols_restores [OF mods read fit1 fit2] acc by auto
  have "w' = final"
    using opts path tr synced by (cases w') (simp add: final_def initial_world_def)
  with run mods read fit1 fit2 acc show ?thesis by (simp add: final_def)
qed

text \<open>
  C3 as stated fails: \<^verbatim>\<open>SymEnum\<close> discards what the visitor returns and its lambda always
  answers \<^verbatim>\<open>true\<close> to \<^verbatim>\<open>enumSymbols\<close>. A visitor that answers "stop" to every call is
  still given all three indexed symbols of the example module.
\<close>

theorem SymEnum_visitor_stop_counterexample:
  "SymEnum example_debugger 0x400000 (record_symbol False) [] =
     Inr [\<lparr> SYMBOLINFO.addr = 0x401000, decoratedSymbol = Some ''?f@@YAXXZ'',
            undecoratedSymbol = Some ''void f(void)'', isImported = False \<rparr>,
          \<lparr> SYMBOLINFO.addr = 0x402000, decoratedSymbol = Some ''Ordinal2'',
            undecoratedSymbol = None, isImported = False \<rparr>,
          \<lparr> SYMBOLINFO.addr = 0x403000, decoratedSymbol = Some ''__imp_puts'',
            undecoratedSymbol = None, isImported = True \<rparr>,
          \<lparr> SYMBOLINFO.addr = 0x401000, decoratedSymbol = Some ''OptionalHeader.AddressOfEntryPoint'',
            undecoratedSymbol = None, isImported = False \<rparr>,
          \<lparr> SYMBOLINFO.addr = 0x405000, decoratedSymbol = Some ''?g@@YAXXZ'',
            undecoratedSymbol = Some ''void g(void)'', isImported = True \<rparr>,
          \<lparr> SYMBOLINFO.addr = 0x405008, decoratedSymbol = Some ''puts'',
            undecoratedSymbol = None, isImported = True \<rparr>]"
  by (simp add: example_defs SymEnum_defs)

text \<open>
  C3, amended. What the visitor returns is ignored by \<^verbatim>\<open>SymEnum\<close>: replacing the
  returned flag by any other leaves the result unchanged, and (for a module whose
  SymbolSource pointer is not null) the visitor is called on every indexed symbol that the
  ordinal rule does not remove, then on the pseudo symbol of the entry point, then on every
  import, whatever it returned before.
\<close>

theorem SymEnum_ignores_visitor_flag:
  "SymEnum dbg Base (\<lambda>symbol u. (flag symbol u, snd (EnumCallback symbol u))) UserData =
     SymEnum dbg Base EnumCallback UserData \<and>
   (symbols_not_null dbg Base \<longrightarrow>
      SymEnum dbg Base EnumCallback UserData =
        Inr (fold (\<lambda>symbol u. snd (EnumCallback symbol u))
               (spec_indexed_symbols dbg Base @ spec_entry_point_symbols dbg Base
                  @ spec_import_symbols dbg Base) UserData))"
proof -
  have "SymEnum_lambda Base (\<lambda>symbol u. (flag symbol u, snd (EnumCallback symbol u))) =
        SymEnum_lambda Base EnumCallback"
    by (intro ext) (simp add: SymEnum_lambda_def)
  moreover have "SymEnumImports dbg Base (\<lambda>symbol u. (flag symbol u, snd (EnumCallback symbol u))) =
        SymEnumImports dbg Base EnumCallback"
    by (intro ext) (simp add: SymEnumImports_def)
  ultimately have "SymEnum dbg Base (\<lambda>symbol u. (flag symbol u, snd (EnumCallback symbol u))) UserData =
     SymEnum dbg Base EnumCallback UserData"
    by (simp add: SymEnum_def SymEnum_indexed_def Let_def split: option.splits sum.splits)
  then show ?thesis
    using SymEnum_order [of dbg Base EnumCallback UserData] by blast
qed

text \<open>A visitor that counts its calls and answers "stop" every time is called six times.\<close>

theorem SymEnum_ignores_visitor_flag_witness:
  "symbols_not_null example_debugger 0x400000 \<and>
   length (spec_indexed_symbols example_debugger 0x400000) = 3 \<and>
   SymEnum example_debugger 0x400000 (\<lambda>symbol n. (False, Suc n)) 0 = Inr 6"
proof -
  have h: "symbols_not_null example_debugger 0x400000"
    by (rule example_symbols_not_null)
  have "SymEnum example_debugger 0x400000 (\<lambda>symbol n. (False, Suc n)) 0 =
        Inr (fold (\<lambda>symbol u. snd (False, Suc u))
               (spec_indexed_symbols example_debugger 0x400000
                  @ spec_entry_point_symbols example_debugger 0x400000
                  @ spec_import_symbols example_debugger 0x400000) 0)"
    using h SymEnum_ignores_visitor_flag [of example_debugger "0x400000" _ "\<lambda>symbol n. (False, Suc n)" 0]
    by blast
  then show ?thesis
    using h
    by (simp add: spec_indexed_symbols_def spec_entry_point_symbols_def spec_import_symbols_def
          example_defs SymEnum_skip_def SymEnum_decorated_def c_str_def strncpy_s_TRUNCATE_def
          MAX_SYM_NAME_def)
qed

text \<open>
  C4 as stated fails: the \<^verbatim>\<open>continue\<close> after a failed \<^verbatim>\<open>GetModuleFileNameExW\<close> belongs to
  the loop over the candidate paths. For a module whose image path cannot be resolved, the
  second candidate path is set and the image path is asked for again.
\<close>

theorem SymDownloadAllSymbols_image_path_counterexample:
  "GetModuleFileNameExW (single_module_debugger ordinal_source) 0x400000 = None \<and>
   SymDownloadAllSymbols (single_module_debugger ordinal_source) accepting_engine (Some ''store'')
       initial_world =
     Inr \<lparr> searchPath = ''C:/old'', options = 0x92,
           trace =
             [Call_SymGetSearchPathW, Call_SymGetOptions, Call_SymSetOptions 0x12,
              Call_SymSetSearchPathW [],
              Console ''Downloading symbols for %s...\<newline>'' [ArgStr ''lib.dll''],
              Call_GetModuleFileNameExW 0x400000,
              Console ''GetModuleFileNameExW (%p) failed!\<newline>'' [ArgPtr 0x400000],
              Call_SymSetSearchPathW ''SRV*C:/symbols*store'',
              Console ''Downloading symbols for %s...\<newline>'' [ArgStr ''lib.dll''],
              Call_GetModuleFileNameExW 0x400000,
              Console ''GetModuleFileNameExW (%p) failed!\<newline>'' [ArgPtr 0x400000],
              Call_SymSetOptions 0x92,
              Call_SymSetSearchPathW ''C:/old''] \<rparr>"
  by (simp add: download_defs engine_defs single_module_debugger_def accepting_engine_def
        initial_world_def)

text \<open>
  C4, amended. When the image path of a module cannot be resolved, only the attempt with the
  current candidate path ends: the search path has been set, the failure is reported, and
  the loop goes on with the remaining candidate paths for the same module.
\<close>

theorem image_path_failure_tries_next_path:
  assumes "SymSetSearchPathW eng w cur_path"
    and "GetModuleFileNameExW dbg (SYMBOLMODULEINFO.base module) = None"
  shows "SymDownloadAllSymbols_paths dbg eng module (cur_path # rest) w =
     SymDownloadAllSymbols_paths dbg eng module rest
       (w\<lparr> searchPath := cur_path,
           trace := trace w @
             [Call_SymSetSearchPathW cur_path,
              Console ''Downloading symbols for %s...\<newline>'' [ArgStr (SYMBOLMODULEINFO.name module)],
              Call_GetModuleFileNameExW (SYMBOLMODULEINFO.base module),
              Console ''GetModuleFileNameExW (%p) failed!\<newline>''
                [ArgPtr (SYMBOLMODULEINFO.base module)]] \<rparr>)"
  using assms by (simp add: engine_defs)

theorem image_path_failure_tries_next_path_witness:
  "SymSetSearchPathW accepting_engine initial_world [] \<and>
   GetModuleFileNameExW (single_module_debugger ordinal_source) 0x400000 = None \<and>
   SymDownloadAllSymbols_paths (single_module_debugger ordinal_source) accepting_engine
       \<lparr> SYMBOLMODULEINFO.base = 0x400000, SYMBOLMODULEINFO.name = ''lib.dll'' \<rparr>
       [[], ''SRV*C:/symbols*store''] initial_world =
     \<lparr> searchPath = ''SRV*C:/symbols*store'', options = 0x92,
       trace =
         [Call_SymSetSearchPathW [],
          Console ''Downloading symbols for %s...\<newline>'' [ArgStr ''lib.dll''],
          Call_GetModuleFileNameExW 0x400000,
          Console ''GetModuleFileNameExW (%p) failed!\<newline>'' [ArgPtr 0x400000],
          Call_SymSetSearchPathW ''SRV*C:/symbols*store'',
          Console ''Downloading symbols for %s...\<newline>'' [ArgStr ''lib.dll''],
          Call_GetModuleFileNameExW 0x400000,
          Console ''GetModuleFileNameExW (%p) failed!\<newline>'' [ArgPtr 0x400000]] \<rparr>"
proof -
  have a: "SymSetSearchPathW accepting_engine initial_world []"
    by (simp add: accepting_engine_def)
  have b: "GetModuleFileNameExW (single_module_debugger ordinal_source)
      (SYMBOLMODULEINFO.base \<lparr> SYMBOLMODULEINFO.base = 0x400000, SYMBOLMODULEINFO.name = ''lib.dll'' \<rparr>) = None"
    by (simp add: single_module_debugger_def)
  show ?thesis
    using a b
      image_path_failure_tries_next_path [OF a b, of "[''SRV*C:/symbols*store'']"]
    by (simp add: engine_defs single_module_debugger_def accepting_engine_def initial_world_def)
qed

text \<open>
  C5 as stated fails: \<^verbatim>\<open>SymEnum\<close> copies the names it is given and tests neither for
  emptiness. A source entry named "main" with an empty undecorated name is emitted with a
  non-null pointer to an empty undecorated name, and an entry without any name is emitted
  with an empty decorated name.
\<close>

theorem SymEnum_names_counterexample:
  "SymEnum (single_module_debugger empty_names_source) 0x400000 (record_symbol True) [] =
     Inr [\<lparr> SYMBOLINFO.addr = 0x401000, decoratedSymbol = Some ''main'',
            undecoratedSymbol = Some [], isImported = False \<rparr>,
          \<lparr> SYMBOLINFO.addr = 0x402000, decoratedSymbol = Some [],
            undecoratedSymbol = None, isImported = False \<rparr>]"
  by (simp add: single_module_debugger_def empty_names_source_def SymEnum_defs)

text \<open>
  C5, amended. The decorated name of an emitted symbol is never a null pointer: it is the
  name supplied by the SymbolSource or by the import walker, cut to \<^verbatim>\<open>MAX_SYM_NAME - 1\<close>
  characters, and it is empty exactly when the supplied name is. For an indexed symbol the
  undecorated pointer is null exactly when the source's decorated and undecorated names are
  equal, and otherwise points to the source's undecorated name, cut likewise (and possibly
  empty). For an import it is non-null exactly when the demangler succeeds with a result
  other than the emitted decorated name, and then points to that result.
\<close>

theorem SymEnum_emitted_names:
  "decoratedSymbol (SymEnum_symbol Base info) = Some (SymEnum_decorated info) \<and>
   undecoratedSymbol (SymEnum_symbol Base info) =
     (if decoratedName info = undecoratedName info then None else Some (SymEnum_undecorated info)) \<and>
   (SymEnum_decorated info = [] \<longleftrightarrow> c_str (decoratedName info) = []) \<and>
   decoratedSymbol (SymEnumImports_symbol dbg a nm) = Some (strncpy_s_TRUNCATE MAX_SYM_NAME nm) \<and>
   undecoratedSymbol (SymEnumImports_symbol dbg a nm) =
     (case SafeUnDecorateSymbolName dbg nm of
        None \<Rightarrow> None
      | Some undecorated \<Rightarrow>
          if undecorated = strncpy_s_TRUNCATE MAX_SYM_NAME nm then None else Some undecorated) \<and>
   (strncpy_s_TRUNCATE MAX_SYM_NAME nm = [] \<longleftrightarrow> nm = [])"
  by (auto simp: SymEnum_symbol_def Let_def SymEnum_decorated_eq SymEnumImports_symbol_def
        SymEnum_decorated_def strncpy_s_TRUNCATE_def MAX_SYM_NAME_def split: option.splits)

text \<open>
  C6. \<^verbatim>\<open>SymAddrFromName\<close> rejects a null or empty name, a null output pointer and a name
  that starts with "Ordinal" in any letter case: it returns false, leaves the output alone
  and makes no call (the world, with its trace, is unchanged). For every other name it
  calls the engine's lookup once, returns whether the lookup found the name, and on success
  stores the address found in the output.
\<close>

theorem SymAddrFromName_contract:
  "(Name = None \<or> Name = Some [] \<or> Address = None \<or>
      (\<exists>nm. Name = Some nm \<and> strnicmp_eq nm ''Ordinal'' 7)
    \<longrightarrow> SymAddrFromName eng Name Address w = (False, Address, w)) \<and>
   (nm \<noteq> [] \<and> \<not> strnicmp_eq nm ''Ordinal'' 7
    \<longrightarrow> SymAddrFromName eng (Some nm) (Some a) w =
          (case SymFromName eng w nm of
             None \<Rightarrow> (False, Some a, log_event (Call_SymFromName nm) w)
           | Some found \<Rightarrow> (True, Some found, log_event (Call_SymFromName nm) w))) \<and>
   (strnicmp_eq nm ''Ordinal'' 7 \<longleftrightarrow> map tolower (take 7 nm) = ''ordinal'')"
  by (auto simp: SymAddrFromName_def SafeSymFromName_def strnicmp_eq_Ordinal
        split: option.splits)

theorem SymAddrFromName_contract_witness:
  "strnicmp_eq ''Ordinal5'' ''Ordinal'' 7 \<and>
   SymAddrFromName accepting_engine (Some ''Ordinal5'') (Some 0) initial_world =
     (False, Some 0, initial_world) \<and>
   \<not> strnicmp_eq ''main'' ''Ordinal'' 7 \<and>
   SymAddrFromName accepting_engine (Some ''main'') (Some 0) initial_world =
     (True, Some 0x401000, initial_world \<lparr> trace := [Call_SymFromName ''main''] \<rparr>) \<and>
   SymAddrFromName accepting_engine (Some ''nosuch'') (Some 7) initial_world =
     (False, Some 7, initial_world \<lparr> trace := [Call_SymFromName ''nosuch''] \<rparr>)"
proof -
  have o: "strnicmp_eq ''Ordinal5'' ''Ordinal'' 7"
    by (simp add: strnicmp_eq_def tolower_def)
  have m: "''main'' \<noteq> [] \<and> \<not> strnicmp_eq ''main'' ''Ordinal'' 7"
    by (simp add: strnicmp_eq_def tolower_def)
  have n: "''nosuch'' \<noteq> [] \<and> \<not> strnicmp_eq ''nosuch'' ''Ordinal'' 7"
    by (simp add: strnicmp_eq_def tolower_def)
  from o have "SymAddrFromName accepting_engine (Some ''Ordinal5'') (Some 0) initial_world =
     (False, Some 0, initial_world)"
    using SymAddrFromName_contract [of "Some ''Ordinal5''" "Some 0" accepting_engine initial_world]
    by blast
  moreover have "SymAddrFromName accepting_engine (Some ''main'') (Some 0) initial_world =
     (True, Some 0x401000, initial_world \<lparr> trace := [Call_SymFromName ''main''] \<rparr>)"
    using m SymAddrFromName_contract [of _ _ accepting_engine initial_world "''main''" 0]
    by (simp add: accepting_engine_def initial_world_def log_event_def)
  moreover have "SymAddrFromName accepting_engine (Some ''nosuch'') (Some 7) initial_world =
     (False, Some 7, initial_world \<lparr> trace := [Call_SymFromName ''nosuch''] \<rparr>)"
    using n SymAddrFromName_contract [of _ _ accepting_engine initial_world "''nosuch''" 7]
    by (simp add: accepting_engine_def initial_world_def log_event_def)
  ultimately show ?thesis
    using o m by simp
qed

text \<open>
  C7 as stated fails: the format is \<^verbatim>\<open>"%s.%p"\<close>, without a literal "0x", and the
  Microsoft runtime renders \<^verbatim>\<open>%p\<close> without a prefix. For an address in \<^verbatim>\<open>app\<close> without a
  label the result is the module name, a dot and sixteen digits.
\<close>

theorem SymGetSymbolicName_prefix_counterexample:
  "sprintf_p example_debugger = sprintf_p_msvc \<and>
   DbgGetLabelAt example_debugger 0x402000 = None \<and>
   ModNameFromAddr example_debugger 0x402000 = Some ''app'' \<and>
   SymGetSymbolicName example_debugger 0x402000 = ''app.0000000000402000''"
  by (simp add: SymGetSymbolicName_def example_debugger_def sprintf_p_msvc_def hex_digit_def
        upt_rec [of _ 16] drop_bit_eq_div)

text \<open>
  C7, amended. \<^verbatim>\<open>SymGetSymbolicName\<close> follows a fixed precedence: with a label at the
  address it returns "<module.label>" when the module is known and "<label>" when it is
  not; without a label it returns the module name, a dot and the address as the C runtime
  renders \<^verbatim>\<open>%p\<close> when the module is known, and the empty string when it is not. The
  Microsoft runtime renders a 64-bit pointer as sixteen hexadecimal digits in upper case,
  without "0x".
\<close>

theorem SymGetSymbolicName_precedence:
  "(DbgGetLabelAt dbg Address = Some label \<and> ModNameFromAddr dbg Address = Some modname
      \<longrightarrow> SymGetSymbolicName dbg Address = ''<'' @ modname @ ''.'' @ label @ ''>'') \<and>
   (DbgGetLabelAt dbg Address = Some label \<and> ModNameFromAddr dbg Address = None
      \<longrightarrow> SymGetSymbolicName dbg Address = ''<'' @ label @ ''>'') \<and>
   (DbgGetLabelAt dbg Address = None \<and> ModNameFromAddr dbg Address = Some modname
      \<longrightarrow> SymGetSymbolicName dbg Address = modname @ ''.'' @ sprintf_p dbg Address) \<and>
   (DbgGetLabelAt dbg Address = None \<and> ModNameFromAddr dbg Address = None
      \<longrightarrow> SymGetSymbolicName dbg Address = []) \<and>
   length (sprintf_p_msvc Address) = 16 \<and>
   set (sprintf_p_msvc Address) \<subseteq> set ''0123456789ABCDEF''"
  using sprintf_p_msvc_format [of Address] by (simp add: SymGetSymbolicName_def)

theorem SymGetSymbolicName_precedence_witness:
  "SymGetSymbolicName example_debugger 0x401000 = ''<app.start>'' \<and>
   SymGetSymbolicName example_debugger 0x500000 = ''<heap>'' \<and>
   SymGetSymbolicName example_debugger 0x40ABCD = ''app.000000000040ABCD'' \<and>
   SymGetSymbolicName example_debugger 0x600000 = []"
proof -
  have 1: "DbgGetLabelAt example_debugger 0x401000 = Some ''start'' \<and>
           ModNameFromAddr example_debugger 0x401000 = Some ''app''"
    by (simp add: example_debugger_def)
  have 2: "DbgGetLabelAt example_debugger 0x500000 = Some ''heap'' \<and>
           ModNameFromAddr example_debugger 0x500000 = None"
    by (simp add: example_debugger_def)
  have 3: "DbgGetLabelAt example_debugger 0x40ABCD = None \<and>
           ModNameFromAddr example_debugger 0x40ABCD = Some ''app''"
    by (simp add: example_debugger_def)
  have 4: "DbgGetLabelAt example_debugger 0x600000 = None \<and>
           ModNameFromAddr example_debugger 0x600000 = None"
    by (simp add: example_debugger_def)
  have s: "sprintf_p example_debugger 0x40ABCD = ''000000000040ABCD''"
    by (simp add: example_debugger_def sprintf_p_msvc_def hex_digit_def upt_rec [of _ 16]
          drop_bit_eq_div)
  show ?thesis
    using 1 2 3 4 s
      SymGetSymbolicName_precedence [of example_debugger "0x401000" "''start''" "''app''"]
      SymGetSymbolicName_precedence [of example_debugger "0x500000" "''heap''"]
      SymGetSymbolicName_precedence [of example_debugger "0x40ABCD" _ "''app''"]
      SymGetSymbolicName_precedence [of example_debugger "0x600000"]
    by simp
qed

text \<open>
  C8. An indexed symbol whose decorated name contains "Ordinal" is left out of the output of
  \<^verbatim>\<open>SymEnum\<close> exactly when its absolute address is the module base; with the same name
  at another address it is emitted. For a module that is found and open, the emitted
  sequence starts with the symbols of the source, in order, from which exactly the entries
  with such a name and address are removed; the entry point and the imports follow. The
  name tested is the one in the buffer handed to the visitor, which holds the first
  \<^verbatim>\<open>MAX_SYM_NAME - 1\<close> characters of the source's name.
\<close>

theorem SymEnum_ordinal_suppression:
  assumes "ModInfoFromAddr dbg Base = Some modInfo" and "symbols modInfo = Some src" and "isOpen src"
  shows "SymEnum dbg Base (record_symbol c) [] =
     Inr (map (SymEnum_symbol Base)
            (filter (\<lambda>info. \<not> (strstr (SymEnum_decorated info) ''Ordinal'' \<and>
                                 SYMBOLINFO.addr (SymEnum_symbol Base info) = Base))
               (symbolList src))
          @ spec_entry_point_symbols dbg Base @ spec_import_symbols dbg Base)"
proof -
  have nn: "symbols_not_null dbg Base"
    using assms by (simp add: symbols_not_null_def)
  have skip: "SymEnum_skip Base info =
      (strstr (SymEnum_decorated info) ''Ordinal'' \<and> SYMBOLINFO.addr (SymEnum_symbol Base info) = Base)"
    for info
    by (simp add: SymEnum_skip_def SymEnum_symbol_def Let_def)
  show ?thesis
    by (simp add: SymEnum_def SymEnum_indexed_fold [OF nn] SymEnumImports_fold
        spec_entry_point_symbols_def entry_point_symbol_def Let_def snd_record_symbol fold_snoc
        spec_indexed_symbols_open [OF assms] skip)
qed

theorem SymEnum_ordinal_suppression_witness:
  "ModInfoFromAddr (single_module_debugger ordinal_source) 0x400000 =
     Some \<lparr> MODINFO.base = 0x400000, MODINFO.name = ''lib'', extension = ''.dll'',
            symbols = Some ordinal_source \<rparr> \<and>
   isOpen ordinal_source \<and>
   SymEnum (single_module_debugger ordinal_source) 0x400000 (record_symbol True) [] =
     Inr [\<lparr> SYMBOLINFO.addr = 0x400010, decoratedSymbol = Some ''Ordinal7'',
            undecoratedSymbol = None, isImported = False \<rparr>]"
proof -
  have a: "ModInfoFromAddr (single_module_debugger ordinal_source) 0x400000 =
     Some \<lparr> MODINFO.base = 0x400000, MODINFO.name = ''lib'', extension = ''.dll'',
            symbols = Some ordinal_source \<rparr>"
    by (simp add: single_module_debugger_def)
  have b: "symbols \<lparr> MODINFO.base = 0x400000, MODINFO.name = ''lib'', extension = ''.dll'',
            symbols = Some ordinal_source \<rparr> = Some ordinal_source"
    by simp
  have c: "isOpen ordinal_source"
    by (simp add: ordinal_source_def)
  show ?thesis
    using a c SymEnum_ordinal_suppression [OF a b c, of True]
    by (simp add: spec_entry_point_symbols_def spec_import_symbols_def
          single_module_debugger_def ordinal_source_def SymEnum_defs)
qed




text \<open>
  C10 as stated fails: \<^verbatim>\<open>SymGetModuleList\<close> builds every name with \<^verbatim>\<open>strcpy_s\<close> and
  \<^verbatim>\<open>strcat_s\<close> in a field of \<^verbatim>\<open>MAX_MODULE_SIZE\<close> characters. For a module whose name of
  252 characters and extension of 4 do not fit together, the invalid-parameter handler ends
  the process: \<^verbatim>\<open>SymGetModuleList\<close> does not return and nothing is published.
\<close>

theorem SymUpdateModuleList_overflow_counterexample:
  "length (MODINFO.name (hd (ModEnum long_name_debugger))) = 252 \<and>
   extension (hd (ModEnum long_name_debugger)) = ''.exe'' \<and>
   SymGetModuleList long_name_debugger [] = Inl InvalidParameter \<and>
   SymUpdateModuleList long_name_debugger = Inl InvalidParameter"
  by (simp add: long_name_debugger_def example_defs SymUpdateModuleList_def SymGetModuleList_def
        SymGetModuleList_lambda_def strcpy_s_def strcat_s_def MAX_MODULE_SIZE_def)

text \<open>
  C10, amended. \<^verbatim>\<open>SymGetModuleList\<close> never returns false, so \<^verbatim>\<open>SymUpdateModuleList\<close>
  never publishes a count with a null pointer. Exactly when the name and the extension of
  every module fit the snapshot's name field together, \<^verbatim>\<open>SymGetModuleList\<close> returns true
  with one entry per enumerated module appended in order, and \<^verbatim>\<open>SymUpdateModuleList\<close>
  publishes exactly these entries, a snapshot of length zero when there is no module, with
  the number of modules cast to \<^verbatim>\<open>int\<close> as the count (the number itself below 2^31).
  Otherwise the invalid-parameter handler ends the process and nothing is published.
\<close>

theorem SymUpdateModuleList_publishes:
  "SymGetModuleList dbg List =
     (if names_fit dbg then Inr (True, List @ map spec_module_entry (ModEnum dbg))
      else Inl InvalidParameter) \<and>
   SymUpdateModuleList dbg =
     (if names_fit dbg
      then Inr (sint (word_of_nat (length (ModEnum dbg)) :: 32 word),
                Some (map spec_module_entry (ModEnum dbg)))
      else Inl InvalidParameter) \<and>
   (length (ModEnum dbg) < 2 ^ 31 \<longrightarrow>
      sint (word_of_nat (length (ModEnum dbg)) :: 32 word) = int (length (ModEnum dbg)))"
  by (simp add: SymGetModuleList_exact SymUpdateModuleList_def sint_count)

theorem SymUpdateModuleList_publishes_witness:
  "names_fit two_module_debugger \<and> length (ModEnum two_module_debugger) < 2 ^ 31 \<and>
   SymUpdateModuleList two_module_debugger =
     Inr (2, Some [\<lparr> SYMBOLMODULEINFO.base = 0x400000, SYMBOLMODULEINFO.name = ''app.exe'' \<rparr>,
                   \<lparr> SYMBOLMODULEINFO.base = 0x10000000, SYMBOLMODULEINFO.name = ''lib.dll'' \<rparr>]) \<and>
   names_fit (two_module_debugger \<lparr> ModEnum := [] \<rparr>) \<and>
   SymUpdateModuleList (two_module_debugger \<lparr> ModEnum := [] \<rparr>) = Inr (0, Some [])"
proof -
  have a: "names_fit two_module_debugger \<and> length (ModEnum two_module_debugger) < 2 ^ 31"
    by (simp add: names_fit_def two_module_debugger_def example_defs library_module_def
          MAX_MODULE_SIZE_def)
  have b: "names_fit (two_module_debugger \<lparr> ModEnum := [] \<rparr>) \<and>
      length (ModEnum (two_module_debugger \<lparr> ModEnum := [] \<rparr>)) < 2 ^ 31"
    by (simp add: names_fit_def)
  show ?thesis
    using a b
      SymUpdateModuleList_publishes [of two_module_debugger]
      SymUpdateModuleList_publishes [of "two_module_debugger \<lparr> ModEnum := [] \<rparr>"]
    by (simp add: two_module_debugger_def example_defs library_module_def spec_module_entry_def)
qed


end
